theory Spec2Isabelle
  imports Main
begin

section \<open>JavaScript values and the browser platform\<close>

text \<open>
  The component types every payload as \<open>any\<close>: what arrives from the server, from
  \<open>JSON.parse\<close> or from the upload collaborator is an arbitrary JSON value, and the code
  inspects it only through truthiness tests, property reads and \<open>===\<close> against string
  literals. Numbers are integers here (JSON has no NaN; fractions are not modelled).
\<close>

datatype json =
    JUndefined
  | JNull
  | JBool bool
  | JNum int
  | JStr string
  | JArr "json list"
  | JObj "(string \<times> json) list"

text \<open>What a \<open>throw\<close> of the source or of the platform carries.\<close>

datatype exn =
    TypeError            \<comment> \<open>property read on \<open>null\<close> or \<open>undefined\<close>\<close>
  | SyntaxError          \<comment> \<open>\<open>JSON.parse\<close> / \<open>response.json()\<close> on text that is not JSON\<close>
  | QuotaExceededError   \<comment> \<open>\<open>localStorage.setItem\<close> refused by the browser\<close>
  | FetchFailed          \<comment> \<open>\<open>new Error('Failed to fetch job data')\<close>, MinutesFrame.tsx line 36\<close>
  | NetworkError         \<comment> \<open>the promise of \<open>fetch\<close> itself rejects\<close>

text \<open>JavaScript truthiness: \<open>if (x)\<close>, \<open>x && y\<close>, \<open>x || y\<close>.\<close>

fun truthy :: "json \<Rightarrow> bool" where
  "truthy JUndefined = False"
| "truthy JNull = False"
| "truthy (JBool b) = b"
| "truthy (JNum n) = (n \<noteq> 0)"
| "truthy (JStr s) = (s \<noteq> [])"
| "truthy (JArr xs) = True"
| "truthy (JObj kvs) = True"

fun nullish :: "json \<Rightarrow> bool" where
  "nullish JUndefined = True"
| "nullish JNull = True"
| "nullish v = False"

text \<open>
  \<open>data.k\<close> for the property names the source reads (\<open>status\<close>, \<open>minutes\<close>, \<open>error\<close>,
  \<open>job_id\<close>): an object yields the member or \<open>undefined\<close>, a primitive or an array
  yields \<open>undefined\<close>, and \<open>null\<close>/\<open>undefined\<close> throw.
\<close>

fun get_prop :: "json \<Rightarrow> string \<Rightarrow> json" where
  "get_prop (JObj kvs) k = (case map_of kvs k of None \<Rightarrow> JUndefined | Some v \<Rightarrow> v)"
| "get_prop v k = JUndefined"

definition read_prop :: "json \<Rightarrow> string \<Rightarrow> exn + json" where
  "read_prop data k = (if nullish data then Inl TypeError else Inr (get_prop data k))"

text \<open>
  Built-ins of the JavaScript engine that the source calls and that are no part of the
  repository: \<open>JSON.parse\<close> (\<open>None\<close> when it throws), \<open>JSON.stringify\<close>, and the string
  conversion of a template literal \<open>`${v}`\<close>.
\<close>

record platform =
  JSON_parse :: "string \<Rightarrow> json option"
  JSON_stringify :: "json \<Rightarrow> string"
  String_of :: "json \<Rightarrow> string"

subsection \<open>localStorage\<close>

text \<open>
  The store keeps strings under string keys. Whether the browser refuses a write (quota
  exhausted, storage disabled) is the browser's decision; it may depend on the current
  contents and on the entry being written.
\<close>

record storage =
  items :: "string \<rightharpoonup> string"
  refuses :: "(string \<rightharpoonup> string) \<Rightarrow> string \<Rightarrow> string \<Rightarrow> bool"

definition getItem :: "storage \<Rightarrow> string \<Rightarrow> string option" where
  "getItem st k = items st k"

definition setItem :: "storage \<Rightarrow> string \<Rightarrow> string \<Rightarrow> exn + storage" where
  "setItem st k v =
     (if refuses st (items st) k v then Inl QuotaExceededError
      else Inr (st\<lparr>items := (items st)(k \<mapsto> v)\<rparr>))"

subsection \<open>The console\<close>

text \<open>Each entry keeps the level and the leading text of the call; further arguments are dropped.\<close>

datatype entry = Log string | Err string

section \<open>The shared socket (apiService.ts)\<close>

text \<open>
  The closures passed to \<open>joinJobRoom\<close>, named after the place that creates them:
  the mount effect (MinutesFrame.tsx lines 67--82) and \<open>handleNewJobCreated\<close>
  (lines 133--145).
\<close>

datatype callback =
    MountOnUpdate
  | MountOnComplete
  | NewJobOnUpdate
  | NewJobOnComplete

text \<open>
  Every function the source registers with \<open>socket.on\<close>: the two loggers of
  \<open>getSocket\<close> and the two job-id filters of \<open>joinJobRoom\<close>, which capture the
  job id and the callback.
\<close>

datatype listener =
    ConnectLogger
  | ConnectErrorLogger
  | UpdateFilter string callback
  | CompleteFilter string callback

text \<open>
  The socket: its listeners in registration order, each under its event name, and the
  events the client has sent to the server.
\<close>

record sock =
  handlers :: "(string \<times> listener) list"
  emitted :: "(string \<times> json) list"

definition io :: sock where
  "io = \<lparr>handlers = [], emitted = []\<rparr>"

definition s_on :: "string \<Rightarrow> listener \<Rightarrow> sock \<Rightarrow> sock" where
  "s_on ev l s = s\<lparr>handlers := handlers s @ [(ev, l)]\<rparr>"

text \<open>\<open>s.off(ev)\<close> with no listener argument removes every listener of the event.\<close>

definition s_off :: "string \<Rightarrow> sock \<Rightarrow> sock" where
  "s_off ev s = s\<lparr>handlers := filter (\<lambda>(e, l). e \<noteq> ev) (handlers s)\<rparr>"

definition s_emit :: "string \<Rightarrow> json \<Rightarrow> sock \<Rightarrow> sock" where
  "s_emit ev data s = s\<lparr>emitted := emitted s @ [(ev, data)]\<rparr>"

section \<open>The state of the page\<close>

text \<open>
  The React state of \<open>MinutesFrame\<close> that the tracking logic touches (the panel width and
  the collapse flag are layout only), the browser's store and console, the module-level
  \<open>socket\<close> singleton of apiService.ts, and the URLs requested with \<open>fetch\<close>.
\<close>

record world =
  activeJobId :: "string option"
  jobData :: json
  error :: "string option"
  loading :: bool
  localStorage :: storage
  console :: "entry list"
  socket :: "sock option"
  fetches :: "string list"

definition console_log :: "string \<Rightarrow> world \<Rightarrow> world" where
  "console_log msg w = w\<lparr>console := console w @ [Log msg]\<rparr>"

definition console_error :: "string \<Rightarrow> world \<Rightarrow> world" where
  "console_error msg w = w\<lparr>console := console w @ [Err msg]\<rparr>"

text \<open>
  A call either returns or throws; what it did to the state before throwing stays done.
  \<open>(None, w)\<close> is a normal return, \<open>(Some e, w)\<close> a throw of \<open>e\<close>.
\<close>

type_synonym completion = "exn option \<times> world"

section \<open>apiService.ts\<close>

text \<open>\<open>getSocket\<close> (lines 36--57): creates the singleton once, with its two loggers.\<close>

definition getSocket :: "world \<Rightarrow> sock \<times> world" where
  "getSocket w =
     (case socket w of
        Some s \<Rightarrow> (s, w)
      | None \<Rightarrow>
          (let s = s_on ''connect_error'' ConnectErrorLogger (s_on ''connect'' ConnectLogger io)
           in (s, w\<lparr>socket := Some s\<rparr>)))"

text \<open>\<open>getLastJobData\<close> (lines 104--119). The pair is \<open>{jobId, jobData}\<close>.\<close>

definition getLastJobData :: "platform \<Rightarrow> world \<Rightarrow> (string option \<times> json) \<times> world" where
  "getLastJobData P w =
     (let jobId = getItem (localStorage w) ''lastJobId'';
          jobDataStr = getItem (localStorage w) ''lastJobData''
      in case jobDataStr of
           None \<Rightarrow> ((jobId, JNull), w)
         | Some str \<Rightarrow>
             if str = [] then ((jobId, JNull), w)
             else (case JSON_parse P str of
                     Some v \<Rightarrow> ((jobId, v), w)
                   | None \<Rightarrow>
                       ((None, JNull),
                        console_error ''Error retrieving job data from localStorage:'' w)))"

text \<open>
  \<open>joinJobRoom\<close> (lines 124--158). The socket object \<open>s\<close> is the singleton, so what is
  done to \<open>s\<close> is done to the module's \<open>socket\<close>.
\<close>

definition joinJobRoom :: "string \<Rightarrow> callback option \<Rightarrow> callback option \<Rightarrow> world \<Rightarrow> world" where
  "joinJobRoom jobId onUpdate onComplete w =
     (let (s0, w1) = getSocket w;
          s1 = s_off ''processing_error'' (s_off ''processing_complete'' (s_off ''processing_update'' s0));
          s2 = (case onUpdate of
                  Some cb \<Rightarrow> s_on ''processing_update'' (UpdateFilter jobId cb) s1
                | None \<Rightarrow> s1);
          s3 = (case onComplete of
                  Some cb \<Rightarrow> s_on ''processing_complete'' (CompleteFilter jobId cb) s2
                | None \<Rightarrow> s2);
          s4 = s_emit ''rejoin_job'' (JObj [(''job_id'', JStr jobId)]) s3
      in w1\<lparr>socket := Some s4\<rparr>)"

text \<open>
  The function \<open>joinJobRoom\<close> returns (lines 152--157). It mentions neither the job id
  nor the callbacks of its call, so every call returns the same behaviour.
\<close>

definition cleanup :: "world \<Rightarrow> world" where
  "cleanup w =
     (case socket w of
        None \<Rightarrow> w
      | Some s \<Rightarrow>
          w\<lparr>socket := Some (s_off ''processing_error''
                            (s_off ''processing_complete'' (s_off ''processing_update'' s)))\<rparr>)"

section \<open>MinutesFrame.tsx\<close>

text \<open>
  The block \<open>try { localStorage.setItem('lastJobData', JSON.stringify(data)) } catch (e)
  { console.error(...) }\<close>, which the source writes out four times (lines 46--50, 77--81,
  122--126, 140--144).
\<close>

definition tryStoreJobData :: "platform \<Rightarrow> json \<Rightarrow> world \<Rightarrow> world" where
  "tryStoreJobData P data w =
     (case setItem (localStorage w) ''lastJobData'' (JSON_stringify P data) of
        Inr st \<Rightarrow> w\<lparr>localStorage := st\<rparr>
      | Inl e \<Rightarrow> console_error ''Error storing job data in localStorage:'' w)"

fun run_callback :: "platform \<Rightarrow> callback \<Rightarrow> json \<Rightarrow> world \<Rightarrow> world" where
  "run_callback P MountOnUpdate data w = console_log ''Processing update:'' w"
| "run_callback P MountOnComplete data w =
     tryStoreJobData P data ((console_log ''Processing complete:'' w)\<lparr>jobData := data\<rparr>)"
| "run_callback P NewJobOnUpdate data w = console_log ''Processing update:'' w"
| "run_callback P NewJobOnComplete data w =
     tryStoreJobData P data ((console_log ''Processing complete:'' w)\<lparr>jobData := data\<rparr>)"

text \<open>
  One registered function applied to an event payload. The filters are
  \<open>(data) => { if (data.job_id === jobId) { callback(data) } }\<close>.
\<close>

fun run_listener :: "platform \<Rightarrow> listener \<Rightarrow> json \<Rightarrow> world \<Rightarrow> completion" where
  "run_listener P ConnectLogger data w = (None, console_log ''Socket connected:'' w)"
| "run_listener P ConnectErrorLogger data w = (None, console_error ''Socket connection error:'' w)"
| "run_listener P (UpdateFilter jobId cb) data w =
     (case read_prop data ''job_id'' of
        Inl e \<Rightarrow> (Some e, w)
      | Inr v \<Rightarrow> if v = JStr jobId then (None, run_callback P cb data w) else (None, w))"
| "run_listener P (CompleteFilter jobId cb) data w =
     (case read_prop data ''job_id'' of
        Inl e \<Rightarrow> (Some e, w)
      | Inr v \<Rightarrow> if v = JStr jobId then (None, run_callback P cb data w) else (None, w))"

text \<open>The listeners of an event run in registration order; a throw ends the dispatch.\<close>

fun run_listeners :: "platform \<Rightarrow> listener list \<Rightarrow> json \<Rightarrow> world \<Rightarrow> completion" where
  "run_listeners P [] data w = (None, w)"
| "run_listeners P (l # ls) data w =
     (case run_listener P l data w of
        (Some e, w') \<Rightarrow> (Some e, w')
      | (None, w') \<Rightarrow> run_listeners P ls data w')"

definition registered :: "string \<Rightarrow> sock \<Rightarrow> listener list" where
  "registered ev s = map snd (filter (\<lambda>(e, l). e = ev) (handlers s))"

definition listeners :: "string \<Rightarrow> world \<Rightarrow> listener list" where
  "listeners ev w = (case socket w of None \<Rightarrow> [] | Some s \<Rightarrow> registered ev s)"

text \<open>
  The socket receives event \<open>ev\<close> with payload \<open>data\<close>: a push event from the server, or
  \<open>connect\<close>, which socket.io raises on the first connection and on every reconnection.
\<close>

definition deliver :: "platform \<Rightarrow> string \<Rightarrow> json \<Rightarrow> world \<Rightarrow> completion" where
  "deliver P ev data w = run_listeners P (listeners ev w) data w"

text \<open>What the client has sent to the server so far.\<close>

definition sent :: "world \<Rightarrow> (string \<times> json) list" where
  "sent w = (case socket w of None \<Rightarrow> [] | Some s \<Rightarrow> emitted s)"

text \<open>
  The mount effect (lines 18--88). \<open>if (jobId)\<close> fails on \<open>null\<close> and on the empty
  string. The request is recorded in \<open>fetches\<close>; its promise chain is \<open>fetchChain\<close>.
\<close>

definition mountEffect :: "platform \<Rightarrow> world \<Rightarrow> world" where
  "mountEffect P w =
     (let ((jobId, data), w1) = getLastJobData P w
      in case jobId of
           None \<Rightarrow> w1
         | Some j \<Rightarrow>
             if j = [] then w1
             else
               (let w2 = console_log (''Retrieved job ID from localStorage: '' @ j)
                           (w1\<lparr>activeJobId := Some j\<rparr>);
                    w3 = (if truthy data
                          then console_log ''Retrieved job data from localStorage''
                                 (w2\<lparr>jobData := data\<rparr>)
                          else w2\<lparr>loading := True,
                                  fetches := fetches w2 @ [''http://localhost:5000/job_status/'' @ j]\<rparr>)
                in joinJobRoom j (Some MountOnUpdate) (Some MountOnComplete) w3))"

text \<open>
  How the request ends: the transport fails, or a response arrives with its \<open>ok\<close> flag and
  its body (\<open>None\<close> when the body is not JSON, so that \<open>response.json()\<close> rejects).
\<close>

datatype fetch_outcome = TransportFailure | Response bool "json option"

text \<open>The first \<open>then\<close> (lines 34--39).\<close>

fun fetch_onResponse :: "fetch_outcome \<Rightarrow> exn + json" where
  "fetch_onResponse TransportFailure = Inl NetworkError"
| "fetch_onResponse (Response ok body) =
     (if \<not> ok then Inl FetchFailed
      else case body of None \<Rightarrow> Inl SyntaxError | Some data \<Rightarrow> Inr data)"

text \<open>The second \<open>then\<close> (lines 40--54).\<close>

definition fetch_onData :: "platform \<Rightarrow> json \<Rightarrow> world \<Rightarrow> completion" where
  "fetch_onData P data w =
     (let w1 = console_log ''Fetched job data:'' w
      in case read_prop data ''status'' of
           Inl e \<Rightarrow> (Some e, w1)
         | Inr status \<Rightarrow>
             if status = JStr ''completed'' \<and> truthy (get_prop data ''minutes'')
             then (None, tryStoreJobData P data (w1\<lparr>jobData := data\<rparr>))
             else if status = JStr ''error''
             then (None,
                   w1\<lparr>error := Some (''Error: '' @
                          String_of P (if truthy (get_prop data ''error'')
                                       then get_prop data ''error''
                                       else JStr ''Unknown error''))\<rparr>)
             else (None, w1))"

text \<open>The \<open>catch\<close> (lines 55--58).\<close>

definition fetch_onCatch :: "world \<Rightarrow> world" where
  "fetch_onCatch w =
     (console_error ''Error fetching job data:'' w)
       \<lparr>error := Some ''Failed to load job data. Please try again.''\<rparr>"

text \<open>The whole chain, ending in the \<open>finally\<close> (lines 59--61).\<close>

definition fetchChain :: "platform \<Rightarrow> fetch_outcome \<Rightarrow> world \<Rightarrow> world" where
  "fetchChain P outcome w =
     (let w1 = (case fetch_onResponse outcome of
                  Inl e \<Rightarrow> fetch_onCatch w
                | Inr data \<Rightarrow>
                    (case fetch_onData P data w of
                       (Some e, w') \<Rightarrow> fetch_onCatch w'
                     | (None, w') \<Rightarrow> w'))
      in w1\<lparr>loading := False\<rparr>)"

text \<open>
  \<open>handleNewJobCreated\<close> (lines 113--147). The write of \<open>lastJobId\<close> on line 129 stands
  outside any \<open>try\<close>.
\<close>

definition handleNewJobCreated :: "platform \<Rightarrow> string \<Rightarrow> json \<Rightarrow> world \<Rightarrow> completion" where
  "handleNewJobCreated P jobId data w =
     (let w1 = console_log ''New job created:'' w;
          w2 = w1\<lparr>activeJobId := Some jobId, error := None\<rparr>;
          w3 = (if truthy data
                then tryStoreJobData P data
                       (console_log ''Setting job data:'' (w2\<lparr>jobData := data\<rparr>))
                else w2)
      in case setItem (localStorage w3) ''lastJobId'' jobId of
           Inl e \<Rightarrow> (Some e, w3)
         | Inr st \<Rightarrow>
             (None, joinJobRoom jobId (Some NewJobOnUpdate) (Some NewJobOnComplete)
                      (w3\<lparr>localStorage := st\<rparr>)))"

text \<open>The dismiss button (line 163).\<close>

definition dismissError :: "world \<Rightarrow> world" where
  "dismissError w = w\<lparr>error := None\<rparr>"

text \<open>The page before the component mounts: the \<open>useState\<close> defaults, no socket yet.\<close>

definition initial :: "storage \<Rightarrow> world" where
  "initial st =
     \<lparr>activeJobId = None, jobData = JNull, error = None, loading = False,
      localStorage = st, console = [], socket = None, fetches = []\<rparr>"

section \<open>Sample data\<close>

text \<open>
  Payloads of job \<open>J1\<close> as the server sends them (\<open>JobResponse\<close>, apiService.ts lines
  21--28), and a platform whose JSON functions are right on these two payloads.
\<close>

definition example_pending :: json where
  \<open>example_pending = JObj [(''status'', JStr ''processing''), (''job_id'', JStr ''J1'')]\<close>

definition example_done :: json where
  \<open>example_done =
     JObj [(''status'', JStr ''completed''), (''job_id'', JStr ''J1''),
           (''minutes'',
            JObj [(''title'', JStr ''Weekly sync''), (''duration'', JStr ''00:31:07''),
                  (''summary'', JStr ''Release plan agreed.''),
                  (''action_points'', JArr [JStr ''Tag the release'']),
                  (''transcription'', JStr ''Good morning.''),
                  (''speakers'', JArr [JStr ''Speaker 1''])])]\<close>

definition example_pending_text :: string where
  \<open>example_pending_text = ''{"status":"processing","job_id":"J1"}''\<close>

definition example_done_text :: string where
  \<open>example_done_text =
     ''{"status":"completed","job_id":"J1","minutes":{"title":"Weekly sync","duration":"00:31:07","summary":"Release plan agreed.","action_points":["Tag the release"],"transcription":"Good morning.","speakers":["Speaker 1"]}}''\<close>

definition example_platform :: platform where
  \<open>example_platform =
     \<lparr>JSON_parse = (\<lambda>s. if s = example_done_text then Some example_done
                         else if s = example_pending_text then Some example_pending
                         else None),
      JSON_stringify = (\<lambda>v. if v = example_done then example_done_text
                             else if v = example_pending then example_pending_text
                             else ''null''),
      String_of = (\<lambda>v. case v of JStr s \<Rightarrow> s | _ \<Rightarrow> ''[object Object]'')\<rparr>\<close>

text \<open>A store that accepts every write, and one that refuses every write.\<close>

definition example_store :: "(string \<rightharpoonup> string) \<Rightarrow> storage" where
  "example_store m = \<lparr>items = m, refuses = (\<lambda>m k v. False)\<rparr>"

definition example_full_store :: "(string \<rightharpoonup> string) \<Rightarrow> storage" where
  "example_full_store m = \<lparr>items = m, refuses = (\<lambda>m k v. True)\<rparr>"

text \<open>
  The page mounted over a cache that holds the id of \<open>J1\<close> and no snapshot: the listeners
  of \<open>J1\<close> are bound, \<open>loading\<close> is set and the request is under way.
\<close>

definition example_loading :: world where
  "example_loading =
     mountEffect example_platform (initial (example_store [''lastJobId'' \<mapsto> ''J1'']))"

text \<open>The same page when the store has stopped accepting writes.\<close>

definition example_loading_full :: world where
  "example_loading_full =
     mountEffect example_platform (initial (example_full_store [''lastJobId'' \<mapsto> ''J1'']))"

text \<open>A cache that holds the id of \<open>J1\<close> together with a snapshot that is still processing.\<close>

definition example_cached_pending :: world where
  "example_cached_pending =
     initial (example_store [''lastJobId'' \<mapsto> ''J1'', ''lastJobData'' \<mapsto> example_pending_text])"

text \<open>A cache that holds the id and the finished snapshot of \<open>J1\<close>.\<close>

definition example_cached_done :: world where
  "example_cached_done =
     initial (example_store [''lastJobId'' \<mapsto> ''J1'', ''lastJobData'' \<mapsto> example_done_text])"

text \<open>The page mounted over that cache: the finished snapshot of \<open>J1\<close> is on display.\<close>

definition example_viewing :: world where
  "example_viewing = mountEffect example_platform example_cached_done"

section \<open>Basic facts\<close>

subsection \<open>No listener touches the socket\<close>

lemma socket_console_log [simp]: "socket (console_log m w) = socket w"
  by (simp add: console_log_def)

lemma socket_console_error [simp]: "socket (console_error m w) = socket w"
  by (simp add: console_error_def)

lemma socket_tryStoreJobData [simp]: "socket (tryStoreJobData P d w) = socket w"
  by (simp add: tryStoreJobData_def split: sum.splits)

lemma socket_run_callback [simp]: "socket (run_callback P cb d w) = socket w"
  by (cases cb) simp_all

lemma socket_run_listener: "socket (snd (run_listener P l d w)) = socket w"
  by (cases l) (simp_all split: sum.splits)

lemma socket_run_listeners: "socket (snd (run_listeners P ls d w)) = socket w"
proof (induction ls arbitrary: w)
  case Nil
  show ?case by simp
next
  case (Cons l ls)
  obtain x w' where r: "run_listener P l d w = (x, w')" by (cases "run_listener P l d w")
  with socket_run_listener [of P l d w] have s: "socket w' = socket w" by simp
  show ?case
  proof (cases x)
    case None
    with r Cons.IH [of w'] s show ?thesis by simp
  next
    case (Some e)
    with r s show ?thesis by simp
  qed
qed

lemma socket_deliver: "socket (snd (deliver P ev d w)) = socket w"
  by (simp add: deliver_def socket_run_listeners)

subsection \<open>The listener table\<close>

lemma registered_io [simp]: "registered ev io = []"
  by (simp add: registered_def io_def)

lemma registered_s_on [simp]:
  "registered ev (s_on ev' l s) = registered ev s @ (if ev' = ev then [l] else [])"
  by (simp add: registered_def s_on_def)

lemma registered_s_off [simp]:
  "registered ev (s_off ev' s) = (if ev' = ev then [] else registered ev s)"
proof -
  have "filter (\<lambda>(e, l). e = ev) (filter (\<lambda>(e, l). e \<noteq> ev') xs) =
          (if ev' = ev then [] else filter (\<lambda>(e, l). e = ev) xs)" for xs :: "(string \<times> listener) list"
    by (induction xs) auto
  then show ?thesis by (simp add: registered_def s_off_def)
qed

lemma registered_s_emit [simp]: "registered ev (s_emit e d s) = registered ev s"
  by (simp add: registered_def s_emit_def)

lemma emitted_s_on [simp]: "emitted (s_on ev l s) = emitted s"
  by (simp add: s_on_def)

lemma emitted_s_off [simp]: "emitted (s_off ev s) = emitted s"
  by (simp add: s_off_def)

lemma emitted_s_emit [simp]: "emitted (s_emit ev d s) = emitted s @ [(ev, d)]"
  by (simp add: s_emit_def)

lemma listeners_joinJobRoom_update:
  "listeners ''processing_update'' (joinJobRoom j u c w) =
     (case u of None \<Rightarrow> [] | Some cb \<Rightarrow> [UpdateFilter j cb])"
  by (simp add: listeners_def joinJobRoom_def getSocket_def Let_def split: option.splits)

lemma listeners_joinJobRoom_complete:
  "listeners ''processing_complete'' (joinJobRoom j u c w) =
     (case c of None \<Rightarrow> [] | Some cb \<Rightarrow> [CompleteFilter j cb])"
  by (simp add: listeners_def joinJobRoom_def getSocket_def Let_def split: option.splits)

lemma listeners_joinJobRoom_error:
  "listeners ''processing_error'' (joinJobRoom j u c w) = []"
  by (simp add: listeners_def joinJobRoom_def getSocket_def Let_def split: option.splits)

lemma listeners_cleanup:
  "ev = ''processing_update'' \<or> ev = ''processing_complete'' \<or> ev = ''processing_error''
   \<Longrightarrow> listeners ev (cleanup w) = []"
  by (auto simp add: listeners_def cleanup_def split: option.splits)


lemma sent_joinJobRoom:
  "sent (joinJobRoom j u c w) = sent w @ [(''rejoin_job'', JObj [(''job_id'', JStr j)])]"
  by (simp add: sent_def joinJobRoom_def getSocket_def io_def s_on_def Let_def
      split: option.splits)

lemma listeners_joinJobRoom_other:
  "ev \<noteq> ''processing_update'' \<Longrightarrow> ev \<noteq> ''processing_complete'' \<Longrightarrow>
   listeners ev (joinJobRoom j u c w) = listeners ev (joinJobRoom j' u' c' w)"
  by (auto simp add: listeners_def joinJobRoom_def getSocket_def Let_def split: option.splits)

lemma deliver_single_filter:
  "listeners ev w = [l] \<Longrightarrow> deliver P ev d w = run_listener P l d w"
  by (cases "run_listener P l d w") (auto simp add: deliver_def split: option.splits)

lemma deliver_no_listener: "listeners ev w = [] \<Longrightarrow> deliver P ev d w = (None, w)"
  by (simp add: deliver_def)



subsection \<open>Entry points and sample states\<close>

lemma handleNewJobCreated_returns:
  assumes "handleNewJobCreated P b d0 w = (None, w1)"
  shows "\<exists>w0. w1 = joinJobRoom b (Some NewJobOnUpdate) (Some NewJobOnComplete) w0"
  using assms by (auto simp add: handleNewJobCreated_def Let_def split: sum.splits)

lemma handleNewJobCreated_binds:
  assumes "handleNewJobCreated P b d0 w = (None, w1)"
  shows "activeJobId w1 = Some b \<and>
         listeners ''processing_update'' w1 = [UpdateFilter b NewJobOnUpdate] \<and>
         listeners ''processing_complete'' w1 = [CompleteFilter b NewJobOnComplete]"
proof -
  from assms have "activeJobId w1 = Some b"
    by (auto simp add: handleNewJobCreated_def joinJobRoom_def getSocket_def console_log_def
          tryStoreJobData_def console_error_def Let_def
        split: sum.splits option.splits if_splits)
  with handleNewJobCreated_returns [OF assms] show ?thesis
    by (auto simp add: listeners_joinJobRoom_update listeners_joinJobRoom_complete)
qed

text \<open>
  Once \<open>handleNewJobCreated\<close> has returned for \<open>b\<close>, a push event that carries another job
  id changes nothing.
\<close>

lemma stale_push_event_discarded_after_return:
  assumes tracked: "handleNewJobCreated P b d0 w = (None, w1)"
    and other: "a \<noteq> b"
    and carries: "read_prop d ''job_id'' = Inr (JStr a)"
    and push: "ev = ''processing_update'' \<or> ev = ''processing_complete''"
  shows "deliver P ev d w1 = (None, w1) \<and>
         jobData (snd (deliver P ev d w1)) = jobData w1 \<and>
         error (snd (deliver P ev d w1)) = error w1"
proof -
  from handleNewJobCreated_returns [OF tracked] obtain w0
    where w1: "w1 = joinJobRoom b (Some NewJobOnUpdate) (Some NewJobOnComplete) w0" ..
  have "deliver P ev d w1 = (None, w1)"
  proof (cases "ev = ''processing_update''")
    case True
    have "listeners ev w1 = [UpdateFilter b NewJobOnUpdate]"
      by (simp add: True w1 listeners_joinJobRoom_update)
    from deliver_single_filter [OF this, of P d] show ?thesis
      using carries other by simp
  next
    case False
    with push have ev: "ev = ''processing_complete''" by simp
    have "listeners ev w1 = [CompleteFilter b NewJobOnComplete]"
      by (simp add: ev w1 listeners_joinJobRoom_complete)
    from deliver_single_filter [OF this, of P d] show ?thesis
      using carries other by simp
  qed
  then show ?thesis by simp
qed

lemma example_loading_eval:
  "example_loading =
     \<lparr>activeJobId = Some ''J1'', jobData = JNull, error = None, loading = True,
      localStorage = example_store [''lastJobId'' \<mapsto> ''J1''],
      console = [Log ''Retrieved job ID from localStorage: J1''],
      socket = Some \<lparr>handlers = [(''connect'', ConnectLogger),
                                  (''connect_error'', ConnectErrorLogger),
                                  (''processing_update'', UpdateFilter ''J1'' MountOnUpdate),
                                  (''processing_complete'', CompleteFilter ''J1'' MountOnComplete)],
                      emitted = [(''rejoin_job'', JObj [(''job_id'', JStr ''J1'')])]\<rparr>,
      fetches = [''http://localhost:5000/job_status/J1'']\<rparr>"
  by (simp add: example_loading_def mountEffect_def getLastJobData_def getItem_def
        example_store_def initial_def console_log_def joinJobRoom_def getSocket_def io_def
        s_on_def s_off_def s_emit_def Let_def)

lemma example_loading_full_eval:
  "example_loading_full =
     \<lparr>activeJobId = Some ''J1'', jobData = JNull, error = None, loading = True,
      localStorage = example_full_store [''lastJobId'' \<mapsto> ''J1''],
      console = [Log ''Retrieved job ID from localStorage: J1''],
      socket = Some \<lparr>handlers = [(''connect'', ConnectLogger),
                                  (''connect_error'', ConnectErrorLogger),
                                  (''processing_update'', UpdateFilter ''J1'' MountOnUpdate),
                                  (''processing_complete'', CompleteFilter ''J1'' MountOnComplete)],
                      emitted = [(''rejoin_job'', JObj [(''job_id'', JStr ''J1'')])]\<rparr>,
      fetches = [''http://localhost:5000/job_status/J1'']\<rparr>"
  by (simp add: example_loading_full_def mountEffect_def getLastJobData_def getItem_def
        example_full_store_def initial_def console_log_def joinJobRoom_def getSocket_def io_def
        s_on_def s_off_def s_emit_def Let_def)

lemma example_done_parse:
  "JSON_parse example_platform example_done_text = Some example_done"
  by (simp add: example_platform_def)

lemma example_done_text_nonempty: "example_done_text \<noteq> []"
  by (simp add: example_done_text_def)

lemma truthy_example_done: "truthy example_done"
  by (simp add: example_done_def)

lemma example_viewing_eval:
  "example_viewing =
     \<lparr>activeJobId = Some ''J1'', jobData = example_done, error = None, loading = False,
      localStorage = example_store [''lastJobId'' \<mapsto> ''J1'', ''lastJobData'' \<mapsto> example_done_text],
      console = [Log ''Retrieved job ID from localStorage: J1'',
                 Log ''Retrieved job data from localStorage''],
      socket = Some \<lparr>handlers = [(''connect'', ConnectLogger),
                                  (''connect_error'', ConnectErrorLogger),
                                  (''processing_update'', UpdateFilter ''J1'' MountOnUpdate),
                                  (''processing_complete'', CompleteFilter ''J1'' MountOnComplete)],
                      emitted = [(''rejoin_job'', JObj [(''job_id'', JStr ''J1'')])]\<rparr>,
      fetches = []\<rparr>"
  by (simp add: example_viewing_def example_cached_done_def mountEffect_def getLastJobData_def
        getItem_def example_store_def initial_def console_log_def joinJobRoom_def getSocket_def
        io_def s_on_def s_off_def s_emit_def Let_def example_done_parse
        example_done_text_nonempty truthy_example_done)

subsection \<open>Writes, reconnection and unreadable snapshots\<close>

lemma tryStoreJobData_fields:
  "jobData (tryStoreJobData P d w) = jobData w \<and>
   loading (tryStoreJobData P d w) = loading w \<and>
   error (tryStoreJobData P d w) = error w \<and>
   activeJobId (tryStoreJobData P d w) = activeJobId w"
  by (simp add: tryStoreJobData_def console_error_def split: sum.splits)

lemma tryStoreJobData_storage:
  "(if refuses (localStorage w) (items (localStorage w)) ''lastJobData'' (JSON_stringify P d)
    then localStorage (tryStoreJobData P d w) = localStorage w \<and>
         console (tryStoreJobData P d w) =
           console w @ [Err ''Error storing job data in localStorage:'']
    else getItem (localStorage (tryStoreJobData P d w)) ''lastJobData'' = Some (JSON_stringify P d) \<and>
         console (tryStoreJobData P d w) = console w)"
  by (simp add: tryStoreJobData_def setItem_def getItem_def console_error_def)

lemma sent_deliver: "sent (snd (deliver P ev d w)) = sent w"
  by (simp add: sent_def socket_deliver)

lemma listeners_connect_getSocket:
  "socket w = None \<Longrightarrow> listeners ''connect'' (joinJobRoom j u c w) = [ConnectLogger]"
  by (simp add: listeners_def joinJobRoom_def getSocket_def Let_def split: option.splits)

lemma example_pending_parse:
  "JSON_parse example_platform example_pending_text = Some example_pending"
  by (simp add: example_platform_def example_pending_text_def example_done_text_def)

lemma lastJobId_write_refused:
  assumes "\<not> truthy d"
    and "refuses (localStorage w) (items (localStorage w)) ''lastJobId'' j"
  shows "handleNewJobCreated P j d w =
           (Some QuotaExceededError,
            (console_log ''New job created:'' w)\<lparr>activeJobId := Some j, error := None\<rparr>)"
  using assms by (simp add: handleNewJobCreated_def setItem_def console_log_def Let_def)

lemma mountEffect_unreadable_snapshot:
  assumes "getItem (localStorage w) ''lastJobData'' = Some str"
    and "str \<noteq> []"
    and "JSON_parse P str = None"
  shows "mountEffect P w = console_error ''Error retrieving job data from localStorage:'' w"
  using assms by (simp add: mountEffect_def getLastJobData_def Let_def)

section \<open>Claims\<close>

text \<open>
  C1. The claim: for all job ids \<open>a \<noteq> b\<close>, after \<open>handleNewJobCreated\<close> for \<open>b\<close> a push
  event that carries job id \<open>a\<close> alters neither \<open>jobData\<close> nor \<open>error\<close>. That holds once the
  call has returned (\<open>stale_push_event_discarded_after_return\<close>). It fails when the
  unguarded write of \<open>lastJobId\<close> throws: on the page mounted for \<open>J1\<close> over a store that
  refuses writes, tracking \<open>J2\<close> sets \<open>activeJobId\<close> to \<open>J2\<close> and throws before
  \<open>joinJobRoom\<close>, the filter of \<open>J1\<close> stays bound, and a \<open>processing_complete\<close> event of
  \<open>J1\<close> then replaces \<open>jobData\<close> while \<open>J2\<close> is the tracked job.
\<close>

theorem stale_push_event_merged_after_failed_write:
  "fst (handleNewJobCreated example_platform ''J2'' JUndefined example_loading_full) =
     Some QuotaExceededError \<and>
   activeJobId (snd (handleNewJobCreated example_platform ''J2'' JUndefined example_loading_full)) =
     Some ''J2'' \<and>
   jobData (snd (handleNewJobCreated example_platform ''J2'' JUndefined example_loading_full)) =
     JNull \<and>
   read_prop example_done ''job_id'' = Inr (JStr ''J1'') \<and>
   ''J1'' \<noteq> ''J2'' \<and>
   listeners ''processing_complete''
     (snd (handleNewJobCreated example_platform ''J2'' JUndefined example_loading_full)) =
     [CompleteFilter ''J1'' MountOnComplete] \<and>
   fst (deliver example_platform ''processing_complete'' example_done
          (snd (handleNewJobCreated example_platform ''J2'' JUndefined example_loading_full))) =
     None \<and>
   activeJobId (snd (deliver example_platform ''processing_complete'' example_done
          (snd (handleNewJobCreated example_platform ''J2'' JUndefined example_loading_full)))) =
     Some ''J2'' \<and>
   jobData (snd (deliver example_platform ''processing_complete'' example_done
          (snd (handleNewJobCreated example_platform ''J2'' JUndefined example_loading_full)))) =
     example_done"
proof -
  let ?X = "(console_log ''New job created:'' example_loading_full)
              \<lparr>activeJobId := Some ''J2'', error := None\<rparr>"
  have n: "\<not> truthy JUndefined" by simp
  have f: "refuses (localStorage example_loading_full) (items (localStorage example_loading_full))
             ''lastJobId'' ''J2''"
    by (simp add: example_loading_full_eval example_full_store_def)
  have h: "handleNewJobCreated example_platform ''J2'' JUndefined example_loading_full =
             (Some QuotaExceededError, ?X)"
    using n f by (rule lastJobId_write_refused)
  have d: "read_prop example_done ''job_id'' = Inr (JStr ''J1'')"
    by (simp add: read_prop_def example_done_def)
  have l: "listeners ''processing_complete'' ?X = [CompleteFilter ''J1'' MountOnComplete]"
    by (simp add: example_loading_full_eval listeners_def registered_def console_log_def)
  have a: "activeJobId ?X = Some ''J2''" and j: "jobData ?X = JNull"
    by (simp_all add: example_loading_full_eval console_log_def)
  have r: "deliver example_platform ''processing_complete'' example_done ?X =
           (None, run_callback example_platform MountOnComplete example_done ?X)"
    using deliver_single_filter [OF l, of example_platform example_done] d by simp
  have a': "activeJobId (run_callback example_platform MountOnComplete example_done ?X) = Some ''J2''"
    and j': "jobData (run_callback example_platform MountOnComplete example_done ?X) = example_done"
    by (simp_all add: tryStoreJobData_fields console_log_def)
  have "''J1'' \<noteq> ''J2''" by simp
  with d l a j a' j' show ?thesis
    unfolding h r fst_conv snd_conv by blast
qed

text \<open>
  C2 as stated: a fetch result whose status is still pending leaves \<open>loading\<close> true. The
  \<open>finally\<close> of the chain clears \<open>loading\<close> whatever the result was: on the page that
  waits for \<open>J1\<close>, the answer \<open>processing\<close> ends the loading state.
\<close>

theorem pending_fetch_result_clears_loading_counterexample:
  "read_prop example_pending ''status'' = Inr (JStr ''processing'') \<and>
   loading example_loading \<and>
   \<not> loading (fetchChain example_platform (Response True (Some example_pending)) example_loading)"
  by (simp add: fetchChain_def example_loading_eval read_prop_def example_pending_def)

text \<open>
  C2, amended. A fetch result whose status is neither \<open>completed\<close> with minutes nor
  \<open>error\<close> is logged and changes neither \<open>jobData\<close>, \<open>error\<close>, \<open>activeJobId\<close>, the store
  nor the socket; \<open>loading\<close> is set to false.
\<close>

theorem pending_fetch_result:
  assumes status: "read_prop data ''status'' = Inr status"
    and not_completed: "\<not> (status = JStr ''completed'' \<and> truthy (get_prop data ''minutes''))"
    and not_error: "status \<noteq> JStr ''error''"
  shows "fetchChain P (Response True (Some data)) w =
           (console_log ''Fetched job data:'' w)\<lparr>loading := False\<rparr> \<and>
         jobData (fetchChain P (Response True (Some data)) w) = jobData w \<and>
         error (fetchChain P (Response True (Some data)) w) = error w \<and>
         activeJobId (fetchChain P (Response True (Some data)) w) = activeJobId w \<and>
         localStorage (fetchChain P (Response True (Some data)) w) = localStorage w \<and>
         socket (fetchChain P (Response True (Some data)) w) = socket w \<and>
         loading (fetchChain P (Response True (Some data)) w) = False"
proof -
  have "fetch_onData P data w = (None, console_log ''Fetched job data:'' w)"
    using assms by (auto simp add: fetch_onData_def Let_def)
  then have "fetchChain P (Response True (Some data)) w =
           (console_log ''Fetched job data:'' w)\<lparr>loading := False\<rparr>"
    by (simp add: fetchChain_def)
  then show ?thesis by (simp add: console_log_def)
qed

theorem pending_fetch_result_witness:
  "read_prop example_pending ''status'' = Inr (JStr ''processing'') \<and>
   \<not> (JStr ''processing'' = JStr ''completed'' \<and> truthy (get_prop example_pending ''minutes'')) \<and>
   JStr ''processing'' \<noteq> JStr ''error'' \<and>
   jobData (fetchChain example_platform (Response True (Some example_pending)) example_loading) = JNull \<and>
   loading (fetchChain example_platform (Response True (Some example_pending)) example_loading) = False"
proof -
  have s: "read_prop example_pending ''status'' = Inr (JStr ''processing'')"
    by (simp add: read_prop_def example_pending_def)
  have c: "\<not> (JStr ''processing'' = JStr ''completed'' \<and> truthy (get_prop example_pending ''minutes''))"
    by simp
  have e: "JStr ''processing'' \<noteq> JStr ''error''" by simp
  from pending_fetch_result [OF s c e, of example_platform example_loading]
  have "jobData (fetchChain example_platform (Response True (Some example_pending)) example_loading) =
          jobData example_loading"
    and "loading (fetchChain example_platform (Response True (Some example_pending)) example_loading) = False"
    by blast+
  with s c e show ?thesis by (simp add: example_loading_eval)
qed

text \<open>
  C3. The claim: a cache write that fails is swallowed and logged and never reaches the
  caller as an exception, for the write of the job id as for the writes of the snapshot.
  The snapshot writes are guarded (\<open>tryStoreJobData_storage\<close>). The write of \<open>lastJobId\<close> in
  \<open>handleNewJobCreated\<close> is not (\<open>lastJobId_write_refused\<close>): on the page mounted for
  \<open>J1\<close> over a store that refuses writes, tracking \<open>J2\<close> throws \<open>QuotaExceededError\<close> to
  the caller after \<open>activeJobId\<close> is set, logs nothing about the failure and never reaches
  \<open>joinJobRoom\<close>, so the listeners of \<open>J1\<close> stay bound.
\<close>

theorem lastJobId_write_failure_propagates:
  "fst (handleNewJobCreated example_platform ''J2'' JUndefined example_loading_full) =
     Some QuotaExceededError \<and>
   activeJobId (snd (handleNewJobCreated example_platform ''J2'' JUndefined example_loading_full)) =
     Some ''J2'' \<and>
   listeners ''processing_complete''
     (snd (handleNewJobCreated example_platform ''J2'' JUndefined example_loading_full)) =
     [CompleteFilter ''J1'' MountOnComplete] \<and>
   console (snd (handleNewJobCreated example_platform ''J2'' JUndefined example_loading_full)) =
     [Log ''Retrieved job ID from localStorage: J1'', Log ''New job created:'']"
  by (simp add: handleNewJobCreated_def setItem_def example_loading_full_eval
        example_full_store_def console_log_def listeners_def registered_def Let_def)

text \<open>
  C4 as stated: an accepted \<open>processing_complete\<close> sets \<open>loading\<close> to false. Neither
  completion callback touches \<open>loading\<close>: on the page that waits for \<open>J1\<close>, the completion
  of \<open>J1\<close> replaces \<open>jobData\<close> and \<open>loading\<close> stays true.
\<close>

theorem accepted_complete_clears_loading_counterexample:
  "activeJobId example_loading = Some ''J1'' \<and>
   read_prop example_done ''job_id'' = Inr (JStr ''J1'') \<and>
   loading example_loading \<and>
   fst (deliver example_platform ''processing_complete'' example_done example_loading) = None \<and>
   jobData (snd (deliver example_platform ''processing_complete'' example_done example_loading)) =
     example_done \<and>
   loading (snd (deliver example_platform ''processing_complete'' example_done example_loading))"
proof -
  have l: "listeners ''processing_complete'' example_loading = [CompleteFilter ''J1'' MountOnComplete]"
    by (simp add: example_loading_eval listeners_def registered_def)
  have d: "read_prop example_done ''job_id'' = Inr (JStr ''J1'')"
    by (simp add: read_prop_def example_done_def)
  have r: "deliver example_platform ''processing_complete'' example_done example_loading =
        (None, run_callback example_platform MountOnComplete example_done example_loading)"
    using deliver_single_filter [OF l, of example_platform example_done] d by simp
  have a: "activeJobId example_loading = Some ''J1''" and t: "loading example_loading"
    by (simp_all add: example_loading_eval)
  from a d t show ?thesis
    by (simp add: r tryStoreJobData_fields console_log_def)
qed

text \<open>
  C4, amended. When the completion filter of job \<open>j\<close> is bound and a
  \<open>processing_complete\<close> event carries job id \<open>j\<close>, \<open>jobData\<close> becomes the payload and
  \<open>loading\<close>, \<open>error\<close> and \<open>activeJobId\<close> keep their values; the serialised payload is
  stored under \<open>lastJobData\<close> when the store accepts the write, and otherwise the store
  is unchanged and the failure is logged.
\<close>

theorem accepted_complete_replaces_and_persists:
  assumes bound: "listeners ''processing_complete'' w = [CompleteFilter j cb]"
    and cb: "cb = MountOnComplete \<or> cb = NewJobOnComplete"
    and carries: "read_prop d ''job_id'' = Inr (JStr j)"
  shows "\<exists>w'. deliver P ''processing_complete'' d w = (None, w') \<and>
           jobData w' = d \<and>
           loading w' = loading w \<and>
           error w' = error w \<and>
           activeJobId w' = activeJobId w \<and>
           (if refuses (localStorage w) (items (localStorage w)) ''lastJobData'' (JSON_stringify P d)
            then localStorage w' = localStorage w \<and>
                 console w' = console w @ [Log ''Processing complete:'',
                                            Err ''Error storing job data in localStorage:'']
            else getItem (localStorage w') ''lastJobData'' = Some (JSON_stringify P d) \<and>
                 console w' = console w @ [Log ''Processing complete:''])"
proof -
  let ?v = "(console_log ''Processing complete:'' w)\<lparr>jobData := d\<rparr>"
  have run: "run_callback P cb d w = tryStoreJobData P d ?v"
    using cb by auto
  have "deliver P ''processing_complete'' d w = (None, tryStoreJobData P d ?v)"
    using deliver_single_filter [OF bound, of P d] carries run by simp
  moreover have "jobData (tryStoreJobData P d ?v) = d"
    and "loading (tryStoreJobData P d ?v) = loading w"
    and "error (tryStoreJobData P d ?v) = error w"
    and "activeJobId (tryStoreJobData P d ?v) = activeJobId w"
    by (simp_all add: tryStoreJobData_fields console_log_def)
  moreover have "if refuses (localStorage w) (items (localStorage w)) ''lastJobData'' (JSON_stringify P d)
            then localStorage (tryStoreJobData P d ?v) = localStorage w \<and>
                 console (tryStoreJobData P d ?v) = console w @ [Log ''Processing complete:'',
                                            Err ''Error storing job data in localStorage:'']
            else getItem (localStorage (tryStoreJobData P d ?v)) ''lastJobData'' = Some (JSON_stringify P d) \<and>
                 console (tryStoreJobData P d ?v) = console w @ [Log ''Processing complete:'']"
    by (simp add: tryStoreJobData_def setItem_def getItem_def console_error_def console_log_def)
  ultimately show ?thesis by blast
qed

theorem accepted_complete_replaces_and_persists_witness:
  "listeners ''processing_complete'' example_loading = [CompleteFilter ''J1'' MountOnComplete] \<and>
   read_prop example_done ''job_id'' = Inr (JStr ''J1'') \<and>
   jobData (snd (deliver example_platform ''processing_complete'' example_done example_loading)) =
     example_done \<and>
   getItem (localStorage (snd (deliver example_platform ''processing_complete'' example_done
                                 example_loading))) ''lastJobData'' = Some example_done_text"
proof -
  have l: "listeners ''processing_complete'' example_loading = [CompleteFilter ''J1'' MountOnComplete]"
    by (simp add: example_loading_eval listeners_def registered_def)
  have c: "MountOnComplete = MountOnComplete \<or> MountOnComplete = NewJobOnComplete" by simp
  have d: "read_prop example_done ''job_id'' = Inr (JStr ''J1'')"
    by (simp add: read_prop_def example_done_def)
  have n: "\<not> refuses (localStorage example_loading) (items (localStorage example_loading))
            ''lastJobData'' (JSON_stringify example_platform example_done)"
    by (simp add: example_loading_eval example_store_def)
  have s: "JSON_stringify example_platform example_done = example_done_text"
    by (simp add: example_platform_def)
  from accepted_complete_replaces_and_persists [OF l c d, of example_platform] n
  obtain w' where "deliver example_platform ''processing_complete'' example_done example_loading = (None, w')"
    and "jobData w' = example_done"
    and "getItem (localStorage w') ''lastJobData'' = Some (JSON_stringify example_platform example_done)"
    by auto
  with l d s show ?thesis by simp
qed

text \<open>
  C5. Calling \<open>joinJobRoom\<close> twice for the same job id leaves exactly one handler set on
  the shared socket: one filter under \<open>processing_update\<close>, one under
  \<open>processing_complete\<close>, none under \<open>processing_error\<close>, the same listeners under
  every event as after a single call; an event of that job then runs each callback once.
\<close>

theorem joinJobRoom_twice_single_handler_set:
  assumes w2: "w2 = joinJobRoom j (Some u) (Some c) (joinJobRoom j u' c' w)"
    and d: "read_prop d ''job_id'' = Inr (JStr j)"
  shows "listeners ''processing_update'' w2 = [UpdateFilter j u] \<and>
         listeners ''processing_complete'' w2 = [CompleteFilter j c] \<and>
         listeners ''processing_error'' w2 = [] \<and>
         (\<forall>ev. listeners ev w2 = listeners ev (joinJobRoom j (Some u) (Some c) w)) \<and>
         deliver P ''processing_update'' d w2 = (None, run_callback P u d w2) \<and>
         deliver P ''processing_complete'' d w2 = (None, run_callback P c d w2)"
proof -
  have up: "listeners ''processing_update'' w2 = [UpdateFilter j u]"
    by (simp add: w2 listeners_joinJobRoom_update)
  have co: "listeners ''processing_complete'' w2 = [CompleteFilter j c]"
    by (simp add: w2 listeners_joinJobRoom_complete)
  have er: "listeners ''processing_error'' w2 = []"
    by (simp add: w2 listeners_joinJobRoom_error)
  have same: "listeners ev w2 = listeners ev (joinJobRoom j (Some u) (Some c) w)" for ev
  proof -
    consider "ev = ''processing_update''" | "ev = ''processing_complete''"
      | "ev \<noteq> ''processing_update''" "ev \<noteq> ''processing_complete''" by blast
    then show ?thesis
    proof cases
      case 1
      then show ?thesis by (simp add: w2 listeners_joinJobRoom_update)
    next
      case 2
      then show ?thesis by (simp add: w2 listeners_joinJobRoom_complete)
    next
      case 3
      have "listeners ev w2 = listeners ev (joinJobRoom j u' c' w)"
        unfolding w2 using 3
        by (auto simp add: listeners_def joinJobRoom_def getSocket_def Let_def split: option.splits)
      also have "\<dots> = listeners ev (joinJobRoom j (Some u) (Some c) w)"
        using 3 by (rule listeners_joinJobRoom_other)
      finally show ?thesis .
    qed
  qed
  have du: "deliver P ''processing_update'' d w2 = (None, run_callback P u d w2)"
    using deliver_single_filter [OF up, of P d] d by simp
  have dc: "deliver P ''processing_complete'' d w2 = (None, run_callback P c d w2)"
    using deliver_single_filter [OF co, of P d] d by simp
  from up co er same du dc show ?thesis by blast
qed

theorem joinJobRoom_twice_single_handler_set_witness:
  "read_prop example_done ''job_id'' = Inr (JStr ''J1'') \<and>
   listeners ''processing_complete''
     (joinJobRoom ''J1'' (Some NewJobOnUpdate) (Some NewJobOnComplete)
        (joinJobRoom ''J1'' (Some MountOnUpdate) (Some MountOnComplete)
           (initial (example_store Map.empty)))) =
     [CompleteFilter ''J1'' NewJobOnComplete] \<and>
   jobData (snd (deliver example_platform ''processing_complete'' example_done
     (joinJobRoom ''J1'' (Some NewJobOnUpdate) (Some NewJobOnComplete)
        (joinJobRoom ''J1'' (Some MountOnUpdate) (Some MountOnComplete)
           (initial (example_store Map.empty)))))) = example_done"
proof -
  have d: "read_prop example_done ''job_id'' = Inr (JStr ''J1'')"
    by (simp add: read_prop_def example_done_def)
  have j: "jobData (tryStoreJobData P v (w\<lparr>jobData := v\<rparr>)) = v" for P v w
    by (simp add: tryStoreJobData_def console_error_def split: sum.splits)
  note t = joinJobRoom_twice_single_handler_set [OF refl d, of NewJobOnUpdate NewJobOnComplete
      "Some MountOnUpdate" "Some MountOnComplete" "initial (example_store Map.empty)"
      example_platform]
  from t have c: "listeners ''processing_complete''
     (joinJobRoom ''J1'' (Some NewJobOnUpdate) (Some NewJobOnComplete)
        (joinJobRoom ''J1'' (Some MountOnUpdate) (Some MountOnComplete)
           (initial (example_store Map.empty)))) = [CompleteFilter ''J1'' NewJobOnComplete]"
    by (elim conjE)
  from t have e: "deliver example_platform ''processing_complete'' example_done
     (joinJobRoom ''J1'' (Some NewJobOnUpdate) (Some NewJobOnComplete)
        (joinJobRoom ''J1'' (Some MountOnUpdate) (Some MountOnComplete)
           (initial (example_store Map.empty)))) =
     (None, run_callback example_platform NewJobOnComplete example_done
       (joinJobRoom ''J1'' (Some NewJobOnUpdate) (Some NewJobOnComplete)
        (joinJobRoom ''J1'' (Some MountOnUpdate) (Some MountOnComplete)
           (initial (example_store Map.empty)))))"
    by (elim conjE)
  show ?thesis using d c e by (simp add: j)
qed

text \<open>
  C6 as stated: on reconnection the engine sends \<open>rejoin_job\<close> again for the tracked job.
  The only listener of \<open>connect\<close> is the logger of \<open>getSocket\<close>: on the page that tracks
  \<open>J1\<close>, a reconnection leaves the single \<open>rejoin_job\<close> of the mount as all that was
  ever sent.
\<close>

theorem reconnect_reissues_join_counterexample:
  "activeJobId example_loading = Some ''J1'' \<and>
   sent example_loading = [(''rejoin_job'', JObj [(''job_id'', JStr ''J1'')])] \<and>
   listeners ''connect'' example_loading = [ConnectLogger] \<and>
   fst (deliver example_platform ''connect'' JUndefined example_loading) = None \<and>
   sent (snd (deliver example_platform ''connect'' JUndefined example_loading)) =
     [(''rejoin_job'', JObj [(''job_id'', JStr ''J1'')])]"
  by (simp add: example_loading_eval deliver_def listeners_def registered_def sent_def
        console_log_def)

text \<open>
  C6, amended. Each call of \<open>joinJobRoom\<close> sends \<open>rejoin_job\<close> for its job id once. A
  \<open>connect\<close> event, the first or a reconnection, sends nothing and rebinds nothing; on a
  socket that \<open>joinJobRoom\<close> created it only logs.
\<close>

theorem reconnect_only_logs:
  assumes joined: "w = joinJobRoom j u c w0"
  shows "sent w = sent w0 @ [(''rejoin_job'', JObj [(''job_id'', JStr j)])] \<and>
         sent (snd (deliver P ''connect'' d w)) = sent w \<and>
         (\<forall>ev. listeners ev (snd (deliver P ''connect'' d w)) = listeners ev w) \<and>
         (socket w0 = None \<longrightarrow>
            deliver P ''connect'' d w = (None, console_log ''Socket connected:'' w))"
proof -
  have s: "sent w = sent w0 @ [(''rejoin_job'', JObj [(''job_id'', JStr j)])]"
    by (simp add: joined sent_joinJobRoom)
  have r: "deliver P ''connect'' d w = (None, console_log ''Socket connected:'' w)"
    if fresh: "socket w0 = None"
  proof -
    have l: "listeners ''connect'' w = [ConnectLogger]"
      unfolding joined using fresh by (rule listeners_connect_getSocket)
    from deliver_single_filter [OF l, of P d] show ?thesis by simp
  qed
  have "listeners ev (snd (deliver P ''connect'' d w)) = listeners ev w" for ev
    by (simp add: listeners_def socket_deliver)
  with s r sent_deliver [of P "''connect''" d w] show ?thesis by simp
qed

theorem reconnect_only_logs_witness:
  "socket (initial (example_store Map.empty)) = None \<and>
   sent (joinJobRoom ''J1'' (Some MountOnUpdate) (Some MountOnComplete)
           (initial (example_store Map.empty))) =
     [(''rejoin_job'', JObj [(''job_id'', JStr ''J1'')])] \<and>
   deliver example_platform ''connect'' JUndefined
     (joinJobRoom ''J1'' (Some MountOnUpdate) (Some MountOnComplete)
        (initial (example_store Map.empty))) =
     (None, console_log ''Socket connected:''
              (joinJobRoom ''J1'' (Some MountOnUpdate) (Some MountOnComplete)
                 (initial (example_store Map.empty)))) \<and>
   sent (snd (deliver example_platform ''connect'' JUndefined
                (joinJobRoom ''J1'' (Some MountOnUpdate) (Some MountOnComplete)
                   (initial (example_store Map.empty))))) =
     [(''rejoin_job'', JObj [(''job_id'', JStr ''J1'')])]"
proof -
  have f: "socket (initial (example_store Map.empty)) = None"
    by (simp add: initial_def)
  have e: "sent (initial (example_store Map.empty)) = []"
    by (simp add: sent_def initial_def)
  note t = reconnect_only_logs [OF refl, of "''J1''" "Some MountOnUpdate" "Some MountOnComplete"
      "initial (example_store Map.empty)" example_platform JUndefined]
  from t e have a: "sent (joinJobRoom ''J1'' (Some MountOnUpdate) (Some MountOnComplete)
           (initial (example_store Map.empty))) =
     [(''rejoin_job'', JObj [(''job_id'', JStr ''J1'')])]"
    by simp
  from t f have b: "deliver example_platform ''connect'' JUndefined
     (joinJobRoom ''J1'' (Some MountOnUpdate) (Some MountOnComplete)
        (initial (example_store Map.empty))) =
     (None, console_log ''Socket connected:''
              (joinJobRoom ''J1'' (Some MountOnUpdate) (Some MountOnComplete)
                 (initial (example_store Map.empty))))"
    by (elim conjE) simp
  have c: "sent (console_log m v) = sent v" for m v
    by (simp add: sent_def)
  from f a b show ?thesis by (simp add: c)
qed

text \<open>
  C7 as stated: a cached job id whose snapshot has a non-terminal status makes the mount
  effect set \<open>loading\<close> and fetch. The effect tests only whether a snapshot was read: over
  a cache with the id of \<open>J1\<close> and its \<open>processing\<close> snapshot, that snapshot becomes
  \<open>jobData\<close>, \<open>loading\<close> stays false and nothing is fetched.
\<close>

theorem cached_pending_snapshot_fetches_counterexample:
  "getItem (localStorage example_cached_pending) ''lastJobId'' = Some ''J1'' \<and>
   fst (getLastJobData example_platform example_cached_pending) = (Some ''J1'', example_pending) \<and>
   get_prop example_pending ''status'' = JStr ''processing'' \<and>
   jobData (mountEffect example_platform example_cached_pending) = example_pending \<and>
   \<not> loading (mountEffect example_platform example_cached_pending) \<and>
   fetches (mountEffect example_platform example_cached_pending) = []"
  by (simp add: example_cached_pending_def mountEffect_def getLastJobData_def getItem_def
        example_store_def initial_def console_log_def joinJobRoom_def getSocket_def Let_def
        example_pending_parse)
    (simp add: example_pending_def example_pending_text_def)

text \<open>
  C7, amended. Whenever \<open>getLastJobData\<close> yields a non-empty job id, the mount effect
  tracks it and binds its listeners; a snapshot that is truthy is accepted as \<open>jobData\<close>
  whatever its status, with no request and \<open>loading\<close> untouched; only a missing snapshot
  (absent, empty or falsy) sets \<open>loading\<close> and issues the request for that id.
\<close>

theorem resume_accepts_any_cached_snapshot:
  assumes cached: "getLastJobData P w = ((Some j, snapshot), w0)"
    and nonempty: "j \<noteq> []"
  shows "activeJobId (mountEffect P w) = Some j \<and>
         listeners ''processing_complete'' (mountEffect P w) = [CompleteFilter j MountOnComplete] \<and>
         (if truthy snapshot
          then jobData (mountEffect P w) = snapshot \<and>
               fetches (mountEffect P w) = fetches w \<and>
               loading (mountEffect P w) = loading w
          else jobData (mountEffect P w) = jobData w \<and>
               fetches (mountEffect P w) = fetches w @ [''http://localhost:5000/job_status/'' @ j] \<and>
               loading (mountEffect P w) = True)"
proof -
  have w0: "fetches w0 = fetches w \<and> loading w0 = loading w \<and> jobData w0 = jobData w"
    using cached
    by (auto simp add: getLastJobData_def console_error_def Let_def
        split: option.splits if_splits)
  have a: "activeJobId (joinJobRoom j u c v) = activeJobId v"
    and b: "jobData (joinJobRoom j u c v) = jobData v"
    and f: "fetches (joinJobRoom j u c v) = fetches v"
    and l: "loading (joinJobRoom j u c v) = loading v" for u c v
    by (simp_all add: joinJobRoom_def getSocket_def Let_def split: option.splits)
  show ?thesis
    using nonempty w0
    by (simp add: mountEffect_def cached Let_def a b f l listeners_joinJobRoom_complete
          console_log_def)
qed

theorem resume_accepts_any_cached_snapshot_witness:
  "getLastJobData example_platform example_cached_pending =
     ((Some ''J1'', example_pending), example_cached_pending) \<and>
   ''J1'' \<noteq> [] \<and> truthy example_pending \<and>
   jobData (mountEffect example_platform example_cached_pending) = example_pending \<and>
   fetches (mountEffect example_platform example_cached_pending) = [] \<and>
   getLastJobData example_platform (initial (example_store [''lastJobId'' \<mapsto> ''J1''])) =
     ((Some ''J1'', JNull), initial (example_store [''lastJobId'' \<mapsto> ''J1''])) \<and>
   \<not> truthy JNull \<and>
   loading (mountEffect example_platform (initial (example_store [''lastJobId'' \<mapsto> ''J1'']))) \<and>
   fetches (mountEffect example_platform (initial (example_store [''lastJobId'' \<mapsto> ''J1'']))) =
     [''http://localhost:5000/job_status/J1'']"
proof -
  have g: "getLastJobData example_platform example_cached_pending =
     ((Some ''J1'', example_pending), example_cached_pending)"
    by (simp add: example_cached_pending_def getLastJobData_def getItem_def example_store_def
          initial_def example_pending_parse Let_def)
      (simp add: example_pending_text_def)
  have g': "getLastJobData example_platform (initial (example_store [''lastJobId'' \<mapsto> ''J1''])) =
     ((Some ''J1'', JNull), initial (example_store [''lastJobId'' \<mapsto> ''J1'']))"
    by (simp add: getLastJobData_def getItem_def example_store_def initial_def Let_def)
  have n: "''J1'' \<noteq> []" by simp
  have t: "truthy example_pending" by (simp add: example_pending_def)
  have e: "fetches example_cached_pending = []"
    by (simp add: example_cached_pending_def initial_def)
  have e': "fetches (initial (example_store [''lastJobId'' \<mapsto> ''J1''])) = []"
    by (simp add: initial_def)
  from resume_accepts_any_cached_snapshot [OF g n] t e
  have 1: "jobData (mountEffect example_platform example_cached_pending) = example_pending \<and>
   fetches (mountEffect example_platform example_cached_pending) = []"
    by simp
  from resume_accepts_any_cached_snapshot [OF g' n] e'
  have 2: "loading (mountEffect example_platform (initial (example_store [''lastJobId'' \<mapsto> ''J1'']))) \<and>
   fetches (mountEffect example_platform (initial (example_store [''lastJobId'' \<mapsto> ''J1'']))) =
     [''http://localhost:5000/job_status/J1'']"
    by simp
  from g g' n t 1 2 show ?thesis by simp
qed



text \<open>
  C9. The function returned by \<open>joinJobRoom\<close> removes every listener of the three push
  events, not only those its own call installed: after \<open>joinJobRoom a\<close> and then
  \<open>joinJobRoom b\<close> the listeners of \<open>b\<close> are bound, and running the function the first
  call returned leaves no push listener, so that no push event reaches the page.
\<close>

theorem cleanup_of_earlier_call_removes_later_handlers:
  assumes w2: "w2 = joinJobRoom b (Some u) (Some c) (joinJobRoom a u' c' w)"
    and push: "ev = ''processing_update'' \<or> ev = ''processing_complete'' \<or> ev = ''processing_error''"
  shows "listeners ''processing_update'' w2 = [UpdateFilter b u] \<and>
         listeners ''processing_complete'' w2 = [CompleteFilter b c] \<and>
         listeners ev (cleanup w2) = [] \<and>
         deliver P ev d (cleanup w2) = (None, cleanup w2)"
proof -
  have up: "listeners ''processing_update'' w2 = [UpdateFilter b u]"
    by (simp add: w2 listeners_joinJobRoom_update)
  have co: "listeners ''processing_complete'' w2 = [CompleteFilter b c]"
    by (simp add: w2 listeners_joinJobRoom_complete)
  have none: "listeners ev (cleanup w2) = []"
    using push by (rule listeners_cleanup)
  from up co none deliver_no_listener [OF none, of P d] show ?thesis by simp
qed

theorem cleanup_of_earlier_call_removes_later_handlers_witness:
  "listeners ''processing_complete''
     (joinJobRoom ''J2'' (Some NewJobOnUpdate) (Some NewJobOnComplete)
        (joinJobRoom ''J1'' (Some MountOnUpdate) (Some MountOnComplete)
           (initial (example_store Map.empty)))) = [CompleteFilter ''J2'' NewJobOnComplete] \<and>
   listeners ''processing_complete''
     (cleanup (joinJobRoom ''J2'' (Some NewJobOnUpdate) (Some NewJobOnComplete)
        (joinJobRoom ''J1'' (Some MountOnUpdate) (Some MountOnComplete)
           (initial (example_store Map.empty))))) = []"
proof -
  note t = cleanup_of_earlier_call_removes_later_handlers
    [OF refl, of "''processing_complete''" "''J2''" NewJobOnUpdate NewJobOnComplete "''J1''"
       "Some MountOnUpdate" "Some MountOnComplete" "initial (example_store Map.empty)"
       example_platform example_done]
  have "''processing_complete'' = ''processing_update'' \<or>
        ''processing_complete'' = ''processing_complete'' \<or>
        ''processing_complete'' = ''processing_error''" by simp
  from t [OF this] show ?thesis by simp
qed

text \<open>
  C10 as stated: \<open>handleNewJobCreated\<close> with a new job id and no snapshot persists the new
  id. Whether the id is stored is the store's decision: over a store that refuses writes,
  tracking \<open>J2\<close> on the page mounted for \<open>J1\<close> leaves \<open>lastJobId\<close> at \<open>J1\<close>.
\<close>

theorem new_job_id_persisted_counterexample:
  "getItem (localStorage example_loading_full) ''lastJobId'' = Some ''J1'' \<and>
   fst (handleNewJobCreated example_platform ''J2'' JUndefined example_loading_full) =
     Some QuotaExceededError \<and>
   getItem (localStorage (snd (handleNewJobCreated example_platform ''J2'' JUndefined
                                 example_loading_full))) ''lastJobId'' = Some ''J1''"
  by (simp add: handleNewJobCreated_def setItem_def getItem_def example_loading_full_eval
        example_full_store_def console_log_def Let_def)

text \<open>
  C10, amended. \<open>handleNewJobCreated\<close> with a new job id and no snapshot (a falsy \<open>data\<close>)
  leaves \<open>jobData\<close> and the cached snapshot holding the previous job's values and issues no
  request, on every store, and the snapshot the cache reads back is the previous one. When
  the store accepts the write of the id, the call returns, the new id is tracked and
  stored, so that the cache pairs the new id with the previous job's snapshot.
\<close>

theorem new_job_without_snapshot_keeps_previous_snapshot:
  assumes nodata: "\<not> truthy d"
  shows "jobData (snd (handleNewJobCreated P j d w)) = jobData w \<and>
         getItem (localStorage (snd (handleNewJobCreated P j d w))) ''lastJobData'' =
           getItem (localStorage w) ''lastJobData'' \<and>
         fetches (snd (handleNewJobCreated P j d w)) = fetches w \<and>
         snd (fst (getLastJobData P (snd (handleNewJobCreated P j d w)))) =
           snd (fst (getLastJobData P w)) \<and>
         (\<not> refuses (localStorage w) (items (localStorage w)) ''lastJobId'' j \<longrightarrow>
            fst (handleNewJobCreated P j d w) = None \<and>
            activeJobId (snd (handleNewJobCreated P j d w)) = Some j \<and>
            getItem (localStorage (snd (handleNewJobCreated P j d w))) ''lastJobId'' = Some j)"
  using nodata
  by (simp add: handleNewJobCreated_def setItem_def getItem_def getLastJobData_def
        joinJobRoom_def getSocket_def console_log_def console_error_def Let_def
      split: option.splits)

theorem new_job_without_snapshot_keeps_previous_snapshot_witness:
  "\<not> truthy JUndefined \<and>
   \<not> refuses (localStorage example_viewing) (items (localStorage example_viewing)) ''lastJobId'' ''J2'' \<and>
   fst (handleNewJobCreated example_platform ''J2'' JUndefined example_viewing) = None \<and>
   jobData (snd (handleNewJobCreated example_platform ''J2'' JUndefined example_viewing)) = example_done \<and>
   fetches (snd (handleNewJobCreated example_platform ''J2'' JUndefined example_viewing)) = [] \<and>
   fst (getLastJobData example_platform
          (snd (handleNewJobCreated example_platform ''J2'' JUndefined example_viewing))) =
     (Some ''J2'', example_done)"
proof -
  let ?w1 = "snd (handleNewJobCreated example_platform ''J2'' JUndefined example_viewing)"
  have n: "\<not> truthy JUndefined" by simp
  have a: "\<not> refuses (localStorage example_viewing) (items (localStorage example_viewing)) ''lastJobId'' ''J2''"
    by (simp add: example_viewing_eval example_store_def)
  note t = new_job_without_snapshot_keeps_previous_snapshot
             [OF n, of example_platform "''J2''" example_viewing]
  from t a have r: "fst (handleNewJobCreated example_platform ''J2'' JUndefined example_viewing) = None"
    and i: "getItem (localStorage ?w1) ''lastJobId'' = Some ''J2''"
    by blast+
  from t have s: "getItem (localStorage ?w1) ''lastJobData'' =
                    getItem (localStorage example_viewing) ''lastJobData''"
    and j: "jobData ?w1 = jobData example_viewing"
    and q: "fetches ?w1 = fetches example_viewing"
    by blast+
  have s': "getItem (localStorage ?w1) ''lastJobData'' = Some example_done_text"
    using s by (simp add: example_viewing_eval example_store_def getItem_def)
  have g: "fst (getLastJobData example_platform ?w1) = (Some ''J2'', example_done)"
    using i s' by (simp add: getLastJobData_def example_done_parse example_done_text_nonempty)
  have "jobData example_viewing = example_done" and "fetches example_viewing = []"
    by (simp_all add: example_viewing_eval)
  with j q have j': "jobData ?w1 = example_done" and q': "fetches ?w1 = []"
    by simp_all
  from n a r g j' q' show ?thesis by blast
qed

end
